theory Spec2Isabelle
  imports Main "HOL-Library.Word"
begin

unbundle bit_operations_syntax

section \<open>spimdisasm/common/GlobalConfig.py\<close>

subsection \<open>The enumerations\<close>

text \<open>
  \<^verbatim>\<open>InputEndian\<close> and \<^verbatim>\<open>Compiler\<close> are \<^verbatim>\<open>enum.Enum\<close> classes. The members of
  \<^verbatim>\<open>Compiler\<close> carry the values \<^verbatim>\<open>None\<close>, \<^verbatim>\<open>"IDO"\<close>, \<^verbatim>\<open>"GCC"\<close> and \<^verbatim>\<open>"SN64"\<close>.
\<close>

datatype InputEndian = BIG | LITTLE | MIDDLE

datatype Compiler = UNKNOWN | IDO | GCC | SN64

text \<open>The exceptions the modelled code can raise.\<close>

datatype py_error = ValueError

definition compilerOptions :: "string set" where
  "compilerOptions = {''IDO'', ''GCC'', ''SN64''}"

text \<open>
  \<^verbatim>\<open>Compiler(value)\<close>: the enum's lookup by value. It returns the member that carries
  the value and raises \<^verbatim>\<open>ValueError\<close> when no member does.
\<close>

definition Compiler_of_value :: "string option \<Rightarrow> py_error + Compiler" where
  "Compiler_of_value v =
     (if v = None then Inr UNKNOWN
      else if v = Some ''IDO'' then Inr IDO
      else if v = Some ''GCC'' then Inr GCC
      else if v = Some ''SN64'' then Inr SN64
      else Inl ValueError)"

text \<open>
  \<^verbatim>\<open>Compiler.fromStr\<close>:
  \<^verbatim>\<open>if value not in compilerOptions: return Compiler.UNKNOWN\<close>,
  \<^verbatim>\<open>return Compiler(value)\<close>.
\<close>

definition fromStr :: "string \<Rightarrow> py_error + Compiler" where
  "fromStr s =
     (if s \<notin> compilerOptions then Inr UNKNOWN
      else Compiler_of_value (Some s))"

subsection \<open>The configuration\<close>

text \<open>
  \<^verbatim>\<open>GlobalConfig\<close> is a class that is never instantiated: its class attributes are the
  program's global configuration. The record holds one field per attribute, and a
  function that assigns to an attribute takes the record and returns the updated one.
\<close>

record GlobalConfig =
  DISASSEMBLE_UNKNOWN_INSTRUCTIONS :: bool
  ADD_NEW_SYMBOLS :: bool
  PRODUCE_SYMBOLS_PLUS_OFFSET :: bool
  TRUST_USER_FUNCTIONS :: bool
  TRUST_JAL_FUNCTIONS :: bool
  STRING_GUESSER :: bool
  AUTOGENERATED_NAMES_BASED_ON_SECTION_TYPE :: bool
  AUTOGENERATED_NAMES_BASED_ON_DATA_TYPE :: bool
  COMPILER :: Compiler
  ENDIAN :: InputEndian
  GP_VALUE :: "int option"
  SYMBOL_FINDER_FILTER_LOW_ADDRESSES :: bool
  SYMBOL_FINDER_FILTER_HIGH_ADDRESSES :: bool
  SYMBOL_FINDER_FILTERED_ADDRESSES_AS_CONSTANTS :: bool
  SYMBOL_FINDER_FILTERED_ADDRESSES_AS_HILO :: bool
  ASM_COMMENT :: bool
  GLABEL_ASM_COUNT :: bool
  ASM_TEXT_LABEL :: string
  ASM_DATA_LABEL :: string
  ASM_TEXT_ENT_LABEL :: string
  ASM_TEXT_END_LABEL :: string
  ASM_TEXT_FUNC_AS_LABEL :: bool
  PRINT_NEW_FILE_BOUNDARIES :: bool
  USE_DOT_BYTE :: bool
  USE_DOT_SHORT :: bool
  LINE_ENDS :: string
  QUIET :: bool
  VERBOSE :: bool
  PRINT_FUNCTION_ANALYSIS_DEBUG_INFO :: bool
  PRINT_SYMBOL_FINDER_DEBUG_INFO :: bool
  PRINT_UNPAIRED_LUIS_DEBUG_INFO :: bool
  REMOVE_POINTERS :: bool
  IGNORE_BRANCHES :: bool
  IGNORE_WORD_LIST :: "int set"
  WRITE_BINARY :: bool

text \<open>The values the class body gives the attributes.\<close>

definition GlobalConfig_default :: GlobalConfig where
  "GlobalConfig_default =
     \<lparr> DISASSEMBLE_UNKNOWN_INSTRUCTIONS = False,
       ADD_NEW_SYMBOLS = True,
       PRODUCE_SYMBOLS_PLUS_OFFSET = True,
       TRUST_USER_FUNCTIONS = True,
       TRUST_JAL_FUNCTIONS = True,
       STRING_GUESSER = True,
       AUTOGENERATED_NAMES_BASED_ON_SECTION_TYPE = True,
       AUTOGENERATED_NAMES_BASED_ON_DATA_TYPE = True,
       COMPILER = IDO,
       ENDIAN = BIG,
       GP_VALUE = None,
       SYMBOL_FINDER_FILTER_LOW_ADDRESSES = True,
       SYMBOL_FINDER_FILTER_HIGH_ADDRESSES = True,
       SYMBOL_FINDER_FILTERED_ADDRESSES_AS_CONSTANTS = True,
       SYMBOL_FINDER_FILTERED_ADDRESSES_AS_HILO = True,
       ASM_COMMENT = True,
       GLABEL_ASM_COUNT = True,
       ASM_TEXT_LABEL = ''glabel'',
       ASM_DATA_LABEL = ''glabel'',
       ASM_TEXT_ENT_LABEL = [],
       ASM_TEXT_END_LABEL = [],
       ASM_TEXT_FUNC_AS_LABEL = False,
       PRINT_NEW_FILE_BOUNDARIES = False,
       USE_DOT_BYTE = True,
       USE_DOT_SHORT = True,
       LINE_ENDS = [CHR 0x0A],
       QUIET = False,
       VERBOSE = False,
       PRINT_FUNCTION_ANALYSIS_DEBUG_INFO = False,
       PRINT_SYMBOL_FINDER_DEBUG_INFO = False,
       PRINT_UNPAIRED_LUIS_DEBUG_INFO = False,
       REMOVE_POINTERS = False,
       IGNORE_BRANCHES = False,
       IGNORE_WORD_LIST = {},
       WRITE_BINARY = False \<rparr>"

subsection \<open>The parsed command line\<close>

text \<open>
  The \<^verbatim>\<open>argparse.Namespace\<close> that \<^verbatim>\<open>parseArgs\<close> reads, one field per attribute it
  reads. An attribute is \<^verbatim>\<open>None\<close> or a value: a boolean for the
  \<^verbatim>\<open>BooleanOptionalAction\<close> options, a string for the others.
\<close>

record Namespace =
  disasm_unknown :: "bool option"
  string_guesser :: "bool option"
  name_vars_by_section :: "bool option"
  name_vars_by_type :: "bool option"
  compiler :: "string option"
  endian :: "string option"
  gp :: "string option"
  filter_low_addresses :: "bool option"
  filter_high_addresses :: "bool option"
  filtered_addresses_as_constants :: "bool option"
  filtered_addresses_as_hilo :: "bool option"
  asm_comments :: "bool option"
  glabel_count :: "bool option"
  asm_text_label :: "string option"
  asm_data_label :: "string option"
  asm_ent_label :: "string option"
  asm_end_label :: "string option"
  asm_func_as_label :: "bool option"
  print_new_file_boundaries :: "bool option"
  use_dot_byte :: "bool option"
  use_dot_short :: "bool option"
  verbose :: "bool option"
  quiet :: "bool option"
  debug_func_analysis :: "bool option"
  debug_symbol_finder :: "bool option"
  debug_unpaired_luis :: "bool option"

text \<open>A namespace whose attributes are all \<^verbatim>\<open>None\<close>.\<close>

definition Namespace_None :: Namespace where
  "Namespace_None =
     \<lparr> disasm_unknown = None,
       string_guesser = None,
       name_vars_by_section = None,
       name_vars_by_type = None,
       compiler = None,
       endian = None,
       gp = None,
       filter_low_addresses = None,
       filter_high_addresses = None,
       filtered_addresses_as_constants = None,
       filtered_addresses_as_hilo = None,
       asm_comments = None,
       glabel_count = None,
       asm_text_label = None,
       asm_data_label = None,
       asm_ent_label = None,
       asm_end_label = None,
       asm_func_as_label = None,
       print_new_file_boundaries = None,
       use_dot_byte = None,
       use_dot_short = None,
       verbose = None,
       quiet = None,
       debug_func_analysis = None,
       debug_symbol_finder = None,
       debug_unpaired_luis = None \<rparr>"

subsection \<open>parseArgs\<close>

text \<open>
  \<^verbatim>\<open>if args.x is not None: GlobalConfig.X = args.x\<close>: the assignment runs when the
  attribute is not \<^verbatim>\<open>None\<close>.
\<close>

definition set_if_not_None ::
  "'a option \<Rightarrow> ('a \<Rightarrow> GlobalConfig \<Rightarrow> GlobalConfig) \<Rightarrow> GlobalConfig \<Rightarrow> GlobalConfig" where
  "set_if_not_None a assign g = (case a of None \<Rightarrow> g | Some v \<Rightarrow> assign v g)"

text \<open>
  \<^verbatim>\<open>if args.x: GlobalConfig.X = args.x\<close>: the assignment runs when the attribute is
  truthy, which for a string means that it is neither \<^verbatim>\<open>None\<close> nor empty.
\<close>

definition set_if_truthy ::
  "string option \<Rightarrow> (string \<Rightarrow> GlobalConfig \<Rightarrow> GlobalConfig) \<Rightarrow> GlobalConfig \<Rightarrow> GlobalConfig" where
  "set_if_truthy a assign g =
     (case a of None \<Rightarrow> g | Some s \<Rightarrow> if s = [] then g else assign s g)"

text \<open>The first four statements of \<^verbatim>\<open>parseArgs\<close> (lines 169 to 178).\<close>

definition parseArgs_flags :: "Namespace \<Rightarrow> GlobalConfig \<Rightarrow> GlobalConfig" where
  "parseArgs_flags args g0 =
     (let g = set_if_not_None (disasm_unknown args)
                (\<lambda>v g. g\<lparr>DISASSEMBLE_UNKNOWN_INSTRUCTIONS := v\<rparr>) g0;
          g = set_if_not_None (string_guesser args) (\<lambda>v g. g\<lparr>STRING_GUESSER := v\<rparr>) g;
          g = set_if_not_None (name_vars_by_section args)
                (\<lambda>v g. g\<lparr>AUTOGENERATED_NAMES_BASED_ON_SECTION_TYPE := v\<rparr>) g;
          g = set_if_not_None (name_vars_by_type args)
                (\<lambda>v g. g\<lparr>AUTOGENERATED_NAMES_BASED_ON_DATA_TYPE := v\<rparr>) g
      in g)"

text \<open>
  \<^verbatim>\<open>if args.compiler is not None: GlobalConfig.COMPILER = Compiler.fromStr(args.compiler)\<close>.
  An exception of \<^verbatim>\<open>fromStr\<close> would leave the statement before the assignment.
\<close>

definition parseArgs_compiler :: "Namespace \<Rightarrow> GlobalConfig \<Rightarrow> py_error + GlobalConfig" where
  "parseArgs_compiler args g =
     (case compiler args of
        None \<Rightarrow> Inr g
      | Some s \<Rightarrow> (case fromStr s of Inl e \<Rightarrow> Inl e | Inr c \<Rightarrow> Inr (g\<lparr>COMPILER := c\<rparr>)))"

text \<open>The \<^verbatim>\<open>if\<close>/\<^verbatim>\<open>elif\<close>/\<^verbatim>\<open>else\<close> on \<^verbatim>\<open>args.endian\<close> (lines 183 to 188).\<close>

definition parseArgs_endian :: "Namespace \<Rightarrow> GlobalConfig \<Rightarrow> GlobalConfig" where
  "parseArgs_endian args g =
     (if endian args = Some ''little'' then g\<lparr>ENDIAN := LITTLE\<rparr>
      else if endian args = Some ''middle'' then g\<lparr>ENDIAN := MIDDLE\<rparr>
      else g\<lparr>ENDIAN := BIG\<rparr>)"

text \<open>
  \<^verbatim>\<open>if args.gp is not None: GlobalConfig.GP_VALUE = int(args.gp, 16)\<close>. The builtin
  \<^verbatim>\<open>int\<close> is the parameter \<open>int16\<close>: it gives \<open>None\<close> where \<^verbatim>\<open>int(s, 16)\<close> raises
  \<^verbatim>\<open>ValueError\<close>.
\<close>

definition parseArgs_gp ::
  "(string \<Rightarrow> int option) \<Rightarrow> Namespace \<Rightarrow> GlobalConfig \<Rightarrow> py_error + GlobalConfig" where
  "parseArgs_gp int16 args g =
     (case gp args of
        None \<Rightarrow> Inr g
      | Some s \<Rightarrow>
          (case int16 s of None \<Rightarrow> Inl ValueError | Some v \<Rightarrow> Inr (g\<lparr>GP_VALUE := Some v\<rparr>)))"

text \<open>The statements after the one on \<^verbatim>\<open>args.gp\<close> (lines 193 to 239).\<close>

definition parseArgs_tail :: "Namespace \<Rightarrow> GlobalConfig \<Rightarrow> GlobalConfig" where
  "parseArgs_tail args g0 =
     (let g = set_if_not_None (filter_low_addresses args)
                (\<lambda>v g. g\<lparr>SYMBOL_FINDER_FILTER_LOW_ADDRESSES := v\<rparr>) g0;
          g = set_if_not_None (filter_high_addresses args)
                (\<lambda>v g. g\<lparr>SYMBOL_FINDER_FILTER_HIGH_ADDRESSES := v\<rparr>) g;
          g = set_if_not_None (filtered_addresses_as_constants args)
                (\<lambda>v g. g\<lparr>SYMBOL_FINDER_FILTERED_ADDRESSES_AS_CONSTANTS := v\<rparr>) g;
          g = set_if_not_None (filtered_addresses_as_hilo args)
                (\<lambda>v g. g\<lparr>SYMBOL_FINDER_FILTERED_ADDRESSES_AS_HILO := v\<rparr>) g;
          g = set_if_not_None (asm_comments args) (\<lambda>v g. g\<lparr>ASM_COMMENT := v\<rparr>) g;
          g = set_if_not_None (glabel_count args) (\<lambda>v g. g\<lparr>GLABEL_ASM_COUNT := v\<rparr>) g;
          g = set_if_truthy (asm_text_label args) (\<lambda>v g. g\<lparr>ASM_TEXT_LABEL := v\<rparr>) g;
          g = set_if_truthy (asm_data_label args) (\<lambda>v g. g\<lparr>ASM_DATA_LABEL := v\<rparr>) g;
          g = set_if_truthy (asm_ent_label args) (\<lambda>v g. g\<lparr>ASM_TEXT_ENT_LABEL := v\<rparr>) g;
          g = set_if_truthy (asm_end_label args) (\<lambda>v g. g\<lparr>ASM_TEXT_END_LABEL := v\<rparr>) g;
          g = set_if_not_None (asm_func_as_label args)
                (\<lambda>v g. g\<lparr>ASM_TEXT_FUNC_AS_LABEL := v\<rparr>) g;
          g = set_if_not_None (print_new_file_boundaries args)
                (\<lambda>v g. g\<lparr>PRINT_NEW_FILE_BOUNDARIES := v\<rparr>) g;
          g = set_if_not_None (use_dot_byte args) (\<lambda>v g. g\<lparr>USE_DOT_BYTE := v\<rparr>) g;
          g = set_if_not_None (use_dot_short args) (\<lambda>v g. g\<lparr>USE_DOT_SHORT := v\<rparr>) g;
          g = set_if_not_None (verbose args) (\<lambda>v g. g\<lparr>VERBOSE := v\<rparr>) g;
          g = set_if_not_None (quiet args) (\<lambda>v g. g\<lparr>QUIET := v\<rparr>) g;
          g = set_if_not_None (debug_func_analysis args)
                (\<lambda>v g. g\<lparr>PRINT_FUNCTION_ANALYSIS_DEBUG_INFO := v\<rparr>) g;
          g = set_if_not_None (debug_symbol_finder args)
                (\<lambda>v g. g\<lparr>PRINT_SYMBOL_FINDER_DEBUG_INFO := v\<rparr>) g;
          g = set_if_not_None (debug_unpaired_luis args)
                (\<lambda>v g. g\<lparr>PRINT_UNPAIRED_LUIS_DEBUG_INFO := v\<rparr>) g
      in g)"

text \<open>
  \<^verbatim>\<open>GlobalConfig.parseArgs\<close>. The result is the exception that ended the call, if one
  did, and the configuration the call leaves behind: an exception does not undo the
  assignments made before it.
\<close>

definition parseArgs ::
  "(string \<Rightarrow> int option) \<Rightarrow> Namespace \<Rightarrow> GlobalConfig \<Rightarrow> py_error option \<times> GlobalConfig" where
  "parseArgs int16 args g0 =
     (let g1 = parseArgs_flags args g0 in
      case parseArgs_compiler args g1 of
        Inl e \<Rightarrow> (Some e, g1)
      | Inr g2 \<Rightarrow>
          (let g3 = parseArgs_endian args g2 in
           case parseArgs_gp int16 args g3 of
             Inl e \<Rightarrow> (Some e, g3)
           | Inr g4 \<Rightarrow> (None, parseArgs_tail args g4)))"

section \<open>The analysis engine\<close>

text \<open>
  The components of this section (the relocation pair tracker and the function boundary
  analyzer) are not among the source files at hand, which hold the configuration and a
  package initialiser only. Their definitions follow the words of the specification,
  sections 3, 4.2 and 4.4; each says which sentence it renders and what it had to fix
  where the sentence leaves a choice.
\<close>

subsection \<open>Instructions\<close>

type_synonym reg = nat

type_synonym imm16 = "16 word"

text \<open>
  Modelled from the spec: the Instruction of section 3, a decoded mnemonic with its
  operand slots. Only the mnemonics that the two analyses tell apart are kept:
  \<^verbatim>\<open>LUI rt, imm\<close>; \<^verbatim>\<open>ADDIU rt, rs, imm\<close>; a load \<^verbatim>\<open>rt, imm(rs)\<close>; a store
  \<^verbatim>\<open>rt, imm(rs)\<close>; \<^verbatim>\<open>JR rs\<close>; \<^verbatim>\<open>JAL target\<close>; \<^verbatim>\<open>JALR rd, rs\<close>; \<^verbatim>\<open>NOP\<close> (the all-zero
  word); and every other instruction, with the register it writes if it writes one.
  An instruction stands at an address, a natural number that grows by 4 from one
  instruction to the next.
\<close>

datatype Instruction =
    LUI reg imm16
  | ADDIU reg reg imm16
  | LOAD reg imm16 reg
  | STORE reg imm16 reg
  | JR reg
  | JAL "32 word"
  | JALR reg reg
  | NOP
  | OTHER "reg option"

text \<open>
  Modelled from the spec: the register an instruction overwrites (section 4.2, "no
  intervening instruction overwrites rX"). \<^verbatim>\<open>JAL\<close> writes the return address register,
  number 31.
\<close>

fun writes_reg :: "Instruction \<Rightarrow> reg option" where
  "writes_reg (LUI rt imm) = Some rt"
| "writes_reg (ADDIU rt rs imm) = Some rt"
| "writes_reg (LOAD rt imm rs) = Some rt"
| "writes_reg (STORE rt imm rs) = None"
| "writes_reg (JR rs) = None"
| "writes_reg (JAL t) = Some 31"
| "writes_reg (JALR rd rs) = Some rd"
| "writes_reg NOP = None"
| "writes_reg (OTHER w) = w"

text \<open>
  Modelled from the spec: the low-part candidates of section 4.2, "an immediate-offset
  memory or arithmetic operation" (\<^verbatim>\<open>ADDIU\<close>, load, store), with the base register and
  the immediate.
\<close>

fun low_part :: "Instruction \<Rightarrow> (reg \<times> imm16) option" where
  "low_part (ADDIU rt rs imm) = Some (rs, imm)"
| "low_part (LOAD rt imm rs) = Some (rs, imm)"
| "low_part (STORE rt imm rs) = Some (rs, imm)"
| "low_part i = None"

text \<open>Modelled from the spec: the high part of section 4.2, \<^verbatim>\<open>LUI rX, imm_hi\<close>.\<close>

fun high_part :: "Instruction \<Rightarrow> (reg \<times> imm16) option" where
  "high_part (LUI rt imm) = Some (rt, imm)"
| "high_part i = None"

text \<open>
  Modelled from the spec: "using rX as a base register" and, for an intervening
  instruction, reading or overwriting rX.
\<close>

definition uses_as_base :: "reg \<Rightarrow> Instruction \<Rightarrow> bool" where
  "uses_as_base r i = (case low_part i of None \<Rightarrow> False | Some (rs, imm_lo) \<Rightarrow> rs = r)"

definition touches :: "reg \<Rightarrow> Instruction \<Rightarrow> bool" where
  "touches r i = (writes_reg i = Some r \<or> uses_as_base r i)"

subsection \<open>The relocation pair tracker\<close>

text \<open>
  Modelled from the spec: the RelocationPair of section 3, "a high-part instruction
  address, a low-part instruction address, and the resolved target address".
\<close>

record RelocationPair =
  hi_address :: nat
  lo_address :: nat
  target :: "32 word"

text \<open>
  Modelled from the spec: "candidate target address =
  \<^verbatim>\<open>(imm_hi << 16) + sign_extend(imm_lo)\<close>", in 32 bits.
\<close>

definition resolve_target :: "imm16 \<Rightarrow> imm16 \<Rightarrow> 32 word" where
  "resolve_target imm_hi imm_lo = push_bit 16 (ucast imm_hi) + scast imm_lo"

text \<open>
  Modelled from the spec: what the tracker holds while it scans one Function (section
  4.2): the high parts that wait for a low part, each under its register with its
  address and immediate; the pairs formed; the addresses of the high parts reported as
  unpaired.
\<close>

record tracker =
  pending :: "(reg \<times> nat \<times> imm16) list"
  pairs :: "RelocationPair list"
  unpaired :: "nat list"

definition pending_remove ::
  "reg \<Rightarrow> (reg \<times> nat \<times> imm16) list \<Rightarrow> (reg \<times> nat \<times> imm16) list" where
  "pending_remove r ps = filter (\<lambda>e. fst e \<noteq> r) ps"

text \<open>
  Modelled from the spec: "match each \<^verbatim>\<open>LUI rX, imm_hi\<close> with the first subsequent
  instruction using rX as a base register"; "the nearest eligible low-part instruction
  after the high-part wins". The instruction at address \<open>a\<close> takes the high part that
  waits under its base register, if one does, and that high part waits no longer.
\<close>

definition pair_low :: "nat \<Rightarrow> Instruction \<Rightarrow> tracker \<Rightarrow> tracker" where
  "pair_low a i st =
     (case low_part i of
        None \<Rightarrow> st
      | Some (rs, imm_lo) \<Rightarrow>
          (case map_of (pending st) rs of
             None \<Rightarrow> st
           | Some (ha, imm_hi) \<Rightarrow>
               st\<lparr>pairs := pairs st @
                      [\<lparr>hi_address = ha, lo_address = a,
                        target = resolve_target imm_hi imm_lo\<rparr>],
                  pending := pending_remove rs (pending st)\<rparr>))"

text \<open>
  Modelled from the spec: "An \<^verbatim>\<open>LUI\<close> with no eligible low-part before the register is
  next redefined [...] is reported as unpaired". An instruction that writes a register
  under which a high part still waits retires that high part to the diagnostics.
\<close>

definition retire_overwritten :: "Instruction \<Rightarrow> tracker \<Rightarrow> tracker" where
  "retire_overwritten i st =
     (case writes_reg i of
        None \<Rightarrow> st
      | Some rd \<Rightarrow>
          (case map_of (pending st) rd of
             None \<Rightarrow> st
           | Some (ha, imm_hi) \<Rightarrow>
               st\<lparr>unpaired := unpaired st @ [ha],
                  pending := pending_remove rd (pending st)\<rparr>))"

text \<open>Modelled from the spec: an \<^verbatim>\<open>LUI\<close> at address \<open>a\<close> starts to wait under its register.\<close>

definition open_high :: "nat \<Rightarrow> Instruction \<Rightarrow> tracker \<Rightarrow> tracker" where
  "open_high a i st =
     (case high_part i of
        None \<Rightarrow> st
      | Some (rx, imm_hi) \<Rightarrow>
          st\<lparr>pending := (rx, a, imm_hi) # pending_remove rx (pending st)\<rparr>)"

text \<open>
  Modelled from the spec: one step of the "greedy, forward scan, single pass". The
  instruction first reads its base register (so \<^verbatim>\<open>ADDIU rX, rX, imm\<close> pairs with the
  \<^verbatim>\<open>LUI\<close> before it), then overwrites its destination, then, if it is an \<^verbatim>\<open>LUI\<close>, waits.
\<close>

definition track_step :: "nat \<Rightarrow> Instruction \<Rightarrow> tracker \<Rightarrow> tracker" where
  "track_step a i st = open_high a i (retire_overwritten i (pair_low a i st))"

fun track_from :: "nat \<Rightarrow> Instruction list \<Rightarrow> tracker \<Rightarrow> tracker" where
  "track_from a [] st = st"
| "track_from a (i # is) st = track_from (a + 4) is (track_step a i st)"

text \<open>
  Modelled from the spec: "[...] or the function ends is reported as unpaired". At the
  end of the Function every high part that still waits is reported.
\<close>

definition finish :: "tracker \<Rightarrow> tracker" where
  "finish st =
     st\<lparr>unpaired := unpaired st @ map (\<lambda>e. fst (snd e)) (pending st), pending := []\<rparr>"

text \<open>
  Modelled from the spec: the Relocation Pair Tracker of section 4.2 over the
  instruction sequence of one Function that starts at address \<open>base\<close>. It is a total
  function: no instruction makes it fail, an unpaired high part is a diagnostic.
\<close>

definition track_function :: "nat \<Rightarrow> Instruction list \<Rightarrow> tracker" where
  "track_function base is =
     finish (track_from base is \<lparr>pending = [], pairs = [], unpaired = []\<rparr>)"

text \<open>Invariants of the tracker's state, used in the proofs below.\<close>

definition hi_free :: "nat \<Rightarrow> tracker \<Rightarrow> bool" where
  "hi_free a st =
     ((\<forall>e \<in> set (pending st). fst (snd e) \<noteq> a) \<and>
      (\<forall>p \<in> set (pairs st). hi_address p \<noteq> a))"

definition all_below :: "nat \<Rightarrow> tracker \<Rightarrow> bool" where
  "all_below c st =
     ((\<forall>e \<in> set (pending st). fst (snd e) < c) \<and>
      (\<forall>p \<in> set (pairs st). hi_address p < c))"

definition held :: "reg \<Rightarrow> nat \<Rightarrow> imm16 \<Rightarrow> tracker \<Rightarrow> bool" where
  "held r a h st =
     (map_of (pending st) r = Some (a, h) \<and>
      (\<forall>e \<in> set (pending st). fst (snd e) = a \<longrightarrow> fst e = r) \<and>
      (\<forall>p \<in> set (pairs st). hi_address p \<noteq> a))"

subsection \<open>The function boundary analyzer\<close>

text \<open>
  Modelled from the spec: the Function of section 3, "a sub-range of a text Section,
  with an ordered sequence of Instructions", and the mark of section 4.4 for a Function
  that the end of the Section closed without a clean return.
\<close>

record Function_span =
  start :: nat
  instrs :: "Instruction list"
  truncated :: bool

definition span_end :: "Function_span \<Rightarrow> nat" where
  "span_end f = start f + 4 * length (instrs f)"

definition covers :: "Function_span \<Rightarrow> nat \<Rightarrow> bool" where
  "covers f x = (start f \<le> x \<and> x < span_end f)"

text \<open>
  Modelled from the spec: "a return sequence is observed (an unconditional
  jump-register-to-return-address followed by its delay-slot instruction)": the
  instructions accumulated so far end in \<^verbatim>\<open>JR $ra\<close> and one more instruction.
\<close>

definition return_observed :: "Instruction list \<Rightarrow> bool" where
  "return_observed acc = (case rev acc of d # j # before \<Rightarrow> j = JR 31 | _ \<Rightarrow> False)"

text \<open>
  Modelled from the spec: "After the return's delay slot, if the next word is
  NOP-padding [...] and the word after is either all-zero or decodes as the start of
  plausible new function prologue, close the current Function". The test for a
  plausible prologue is the parameter \<open>prologue\<close>, which the spec does not define. A
  next word that is itself a plausible prologue closes the Function too, as the
  end-to-end scenario of section 8 asks.
\<close>

definition padding_then_start :: "(Instruction \<Rightarrow> bool) \<Rightarrow> Instruction list \<Rightarrow> bool" where
  "padding_then_start prologue rest =
     (case rest of
        [] \<Rightarrow> False
      | n # following \<Rightarrow>
          prologue n \<or>
          (n = NOP \<and>
           (case following of [] \<Rightarrow> False | x # after \<Rightarrow> x = NOP \<or> prologue x)))"

text \<open>
  Modelled from the spec: the two signals that close the open Function before the
  address \<open>next\<close>, where instructions remain: a trusted hint at \<open>next\<close> ("the Analyzer
  force-splits at that address"), or an observed return sequence with what follows it.
\<close>

definition closes_before ::
  "nat set \<Rightarrow> (Instruction \<Rightarrow> bool) \<Rightarrow> nat \<Rightarrow> Instruction list \<Rightarrow> Instruction list \<Rightarrow> bool"
  where
  "closes_before hints prologue next acc rest =
     (rest \<noteq> [] \<and>
      (next \<in> hints \<or> (return_observed acc \<and> padding_then_start prologue rest)))"

text \<open>
  Modelled from the spec: the state machine of section 4.4, "one pass left to right".
  \<open>s\<close> is the address where the open Function began and \<open>acc\<close> the instructions it has
  accumulated; an empty \<open>acc\<close> is the state START. The end of the Section closes the
  open Function "regardless of whether a clean return was observed", and marks it
  truncated when none was.
\<close>

fun analyze_from ::
  "nat set \<Rightarrow> (Instruction \<Rightarrow> bool) \<Rightarrow> nat \<Rightarrow> Instruction list \<Rightarrow> Instruction list \<Rightarrow>
   Function_span list" where
  "analyze_from hints prologue s acc [] =
     (if acc = [] then []
      else [\<lparr>start = s, instrs = acc, truncated = (\<not> return_observed acc)\<rparr>])"
| "analyze_from hints prologue s acc (i # rest) =
     (let acc' = acc @ [i]; next = s + 4 * length acc' in
      if closes_before hints prologue next acc' rest
      then \<lparr>start = s, instrs = acc', truncated = False\<rparr> #
           analyze_from hints prologue next [] rest
      else analyze_from hints prologue s acc' rest)"

text \<open>
  Modelled from the spec: the Function Boundary Analyzer over a text Section that
  starts at address \<open>base\<close> and holds the decoded instructions \<open>is\<close>, with the trusted
  function addresses \<open>hints\<close>.
\<close>

definition analyze ::
  "nat set \<Rightarrow> (Instruction \<Rightarrow> bool) \<Rightarrow> nat \<Rightarrow> Instruction list \<Rightarrow> Function_span list" where
  "analyze hints prologue base is = analyze_from hints prologue base [] is"

text \<open>
  Spans that follow one another from address \<open>a\<close> to address \<open>e\<close>, none of them empty;
  used in the proofs below.
\<close>

fun chained :: "nat \<Rightarrow> Function_span list \<Rightarrow> nat \<Rightarrow> bool" where
  "chained a [] e = (a = e)"
| "chained a (f # fs) e = (start f = a \<and> instrs f \<noteq> [] \<and> chained (span_end f) fs e)"

section \<open>Properties of GlobalConfig.py\<close>

subsection \<open>Compiler.fromStr\<close>

lemma Compiler_of_value_options:
  "Compiler_of_value (Some ''IDO'') = Inr IDO"
  "Compiler_of_value (Some ''GCC'') = Inr GCC"
  "Compiler_of_value (Some ''SN64'') = Inr SN64"
  by (simp_all add: Compiler_of_value_def)

lemma fromStr_cases:
  "fromStr s =
     Inr (if s = ''IDO'' then IDO else if s = ''GCC'' then GCC
          else if s = ''SN64'' then SN64 else UNKNOWN)"
proof (cases "s \<in> compilerOptions")
  case True
  then consider "s = ''IDO''" | "s = ''GCC''" | "s = ''SN64''"
    by (auto simp add: compilerOptions_def)
  then show ?thesis
  proof cases
    case 1
    then show ?thesis by (simp add: fromStr_def compilerOptions_def Compiler_of_value_options)
  next
    case 2
    then show ?thesis by (simp add: fromStr_def compilerOptions_def Compiler_of_value_options)
  next
    case 3
    then show ?thesis by (simp add: fromStr_def compilerOptions_def Compiler_of_value_options)
  qed
next
  case False
  then have "s \<noteq> ''IDO''" "s \<noteq> ''GCC''" "s \<noteq> ''SN64''"
    by (auto simp add: compilerOptions_def)
  with False show ?thesis by (simp add: fromStr_def)
qed

text \<open>
  Claim C8. \<^verbatim>\<open>Compiler.fromStr\<close> raises on no string: it returns \<^verbatim>\<open>Compiler.IDO\<close>,
  \<^verbatim>\<open>Compiler.GCC\<close> or \<^verbatim>\<open>Compiler.SN64\<close> exactly when the string is \<^verbatim>\<open>"IDO"\<close>,
  \<^verbatim>\<open>"GCC"\<close> or \<^verbatim>\<open>"SN64"\<close>, and \<^verbatim>\<open>Compiler.UNKNOWN\<close> for every other string.
\<close>

theorem fromStr_total:
  "(\<exists>c. fromStr s = Inr c) \<and>
   (fromStr s = Inr IDO) = (s = ''IDO'') \<and>
   (fromStr s = Inr GCC) = (s = ''GCC'') \<and>
   (fromStr s = Inr SN64) = (s = ''SN64'') \<and>
   (fromStr s = Inr UNKNOWN) = (s \<noteq> ''IDO'' \<and> s \<noteq> ''GCC'' \<and> s \<noteq> ''SN64'')"
  by (simp add: fromStr_cases)

subsection \<open>What a statement of parseArgs leaves alone\<close>

lemma sel_set_if_not_None_other:
  "(\<And>v g'. h (assign v g') = h g') \<Longrightarrow> h (set_if_not_None a assign g) = h g"
  by (cases a) (simp_all add: set_if_not_None_def)

lemma sel_set_if_truthy_other:
  "(\<And>v g'. h (assign v g') = h g') \<Longrightarrow> h (set_if_truthy a assign g) = h g"
  by (cases a) (simp_all add: set_if_truthy_def)

lemma set_if_not_None_None: "a = None \<Longrightarrow> set_if_not_None a assign g = g"
  by (simp add: set_if_not_None_def)

lemma set_if_truthy_falsy: "a = None \<or> a = Some [] \<Longrightarrow> set_if_truthy a assign g = g"
  by (auto simp add: set_if_truthy_def)
lemmas sel_not_None_frame =
  sel_set_if_not_None_other [where h = DISASSEMBLE_UNKNOWN_INSTRUCTIONS]
  sel_set_if_not_None_other [where h = STRING_GUESSER]
  sel_set_if_not_None_other [where h = AUTOGENERATED_NAMES_BASED_ON_SECTION_TYPE]
  sel_set_if_not_None_other [where h = AUTOGENERATED_NAMES_BASED_ON_DATA_TYPE]
  sel_set_if_not_None_other [where h = COMPILER]
  sel_set_if_not_None_other [where h = GP_VALUE]
  sel_set_if_not_None_other [where h = SYMBOL_FINDER_FILTER_LOW_ADDRESSES]
  sel_set_if_not_None_other [where h = SYMBOL_FINDER_FILTER_HIGH_ADDRESSES]
  sel_set_if_not_None_other [where h = SYMBOL_FINDER_FILTERED_ADDRESSES_AS_CONSTANTS]
  sel_set_if_not_None_other [where h = SYMBOL_FINDER_FILTERED_ADDRESSES_AS_HILO]
  sel_set_if_not_None_other [where h = ASM_COMMENT]
  sel_set_if_not_None_other [where h = GLABEL_ASM_COUNT]
  sel_set_if_not_None_other [where h = ASM_TEXT_LABEL]
  sel_set_if_not_None_other [where h = ASM_DATA_LABEL]
  sel_set_if_not_None_other [where h = ASM_TEXT_ENT_LABEL]
  sel_set_if_not_None_other [where h = ASM_TEXT_END_LABEL]
  sel_set_if_not_None_other [where h = ASM_TEXT_FUNC_AS_LABEL]
  sel_set_if_not_None_other [where h = PRINT_NEW_FILE_BOUNDARIES]
  sel_set_if_not_None_other [where h = USE_DOT_BYTE]
  sel_set_if_not_None_other [where h = USE_DOT_SHORT]
  sel_set_if_not_None_other [where h = VERBOSE]
  sel_set_if_not_None_other [where h = QUIET]
  sel_set_if_not_None_other [where h = PRINT_FUNCTION_ANALYSIS_DEBUG_INFO]
  sel_set_if_not_None_other [where h = PRINT_SYMBOL_FINDER_DEBUG_INFO]
  sel_set_if_not_None_other [where h = PRINT_UNPAIRED_LUIS_DEBUG_INFO]
  sel_set_if_not_None_other [where h = ADD_NEW_SYMBOLS]
  sel_set_if_not_None_other [where h = PRODUCE_SYMBOLS_PLUS_OFFSET]
  sel_set_if_not_None_other [where h = TRUST_USER_FUNCTIONS]
  sel_set_if_not_None_other [where h = TRUST_JAL_FUNCTIONS]
  sel_set_if_not_None_other [where h = LINE_ENDS]
  sel_set_if_not_None_other [where h = REMOVE_POINTERS]
  sel_set_if_not_None_other [where h = IGNORE_BRANCHES]
  sel_set_if_not_None_other [where h = IGNORE_WORD_LIST]
  sel_set_if_not_None_other [where h = WRITE_BINARY]
  sel_set_if_not_None_other [where h = ENDIAN]

lemmas sel_truthy_frame =
  sel_set_if_truthy_other [where h = DISASSEMBLE_UNKNOWN_INSTRUCTIONS]
  sel_set_if_truthy_other [where h = STRING_GUESSER]
  sel_set_if_truthy_other [where h = AUTOGENERATED_NAMES_BASED_ON_SECTION_TYPE]
  sel_set_if_truthy_other [where h = AUTOGENERATED_NAMES_BASED_ON_DATA_TYPE]
  sel_set_if_truthy_other [where h = COMPILER]
  sel_set_if_truthy_other [where h = GP_VALUE]
  sel_set_if_truthy_other [where h = SYMBOL_FINDER_FILTER_LOW_ADDRESSES]
  sel_set_if_truthy_other [where h = SYMBOL_FINDER_FILTER_HIGH_ADDRESSES]
  sel_set_if_truthy_other [where h = SYMBOL_FINDER_FILTERED_ADDRESSES_AS_CONSTANTS]
  sel_set_if_truthy_other [where h = SYMBOL_FINDER_FILTERED_ADDRESSES_AS_HILO]
  sel_set_if_truthy_other [where h = ASM_COMMENT]
  sel_set_if_truthy_other [where h = GLABEL_ASM_COUNT]
  sel_set_if_truthy_other [where h = ASM_TEXT_LABEL]
  sel_set_if_truthy_other [where h = ASM_DATA_LABEL]
  sel_set_if_truthy_other [where h = ASM_TEXT_ENT_LABEL]
  sel_set_if_truthy_other [where h = ASM_TEXT_END_LABEL]
  sel_set_if_truthy_other [where h = ASM_TEXT_FUNC_AS_LABEL]
  sel_set_if_truthy_other [where h = PRINT_NEW_FILE_BOUNDARIES]
  sel_set_if_truthy_other [where h = USE_DOT_BYTE]
  sel_set_if_truthy_other [where h = USE_DOT_SHORT]
  sel_set_if_truthy_other [where h = VERBOSE]
  sel_set_if_truthy_other [where h = QUIET]
  sel_set_if_truthy_other [where h = PRINT_FUNCTION_ANALYSIS_DEBUG_INFO]
  sel_set_if_truthy_other [where h = PRINT_SYMBOL_FINDER_DEBUG_INFO]
  sel_set_if_truthy_other [where h = PRINT_UNPAIRED_LUIS_DEBUG_INFO]
  sel_set_if_truthy_other [where h = ADD_NEW_SYMBOLS]
  sel_set_if_truthy_other [where h = PRODUCE_SYMBOLS_PLUS_OFFSET]
  sel_set_if_truthy_other [where h = TRUST_USER_FUNCTIONS]
  sel_set_if_truthy_other [where h = TRUST_JAL_FUNCTIONS]
  sel_set_if_truthy_other [where h = LINE_ENDS]
  sel_set_if_truthy_other [where h = REMOVE_POINTERS]
  sel_set_if_truthy_other [where h = IGNORE_BRANCHES]
  sel_set_if_truthy_other [where h = IGNORE_WORD_LIST]
  sel_set_if_truthy_other [where h = WRITE_BINARY]
  sel_set_if_truthy_other [where h = ENDIAN]

lemma parseArgs_compiler_Inr:
  "parseArgs_compiler args g =
     Inr (case compiler args of
            None \<Rightarrow> g
          | Some s \<Rightarrow>
              g\<lparr>COMPILER := (if s = ''IDO'' then IDO else if s = ''GCC'' then GCC
                              else if s = ''SN64'' then SN64 else UNKNOWN)\<rparr>)"
  by (cases "compiler args") (simp_all add: parseArgs_compiler_def fromStr_cases)

lemma ENDIAN_parseArgs_flags: "ENDIAN (parseArgs_flags args g) = ENDIAN g"
  by (simp add: parseArgs_flags_def Let_def sel_not_None_frame)

lemma ENDIAN_parseArgs_tail: "ENDIAN (parseArgs_tail args g) = ENDIAN g"
  by (simp add: parseArgs_tail_def Let_def sel_not_None_frame sel_truthy_frame)

lemma ENDIAN_parseArgs_endian:
  "ENDIAN (parseArgs_endian args g) =
     (if endian args = Some ''little'' then LITTLE
      else if endian args = Some ''middle'' then MIDDLE else BIG)"
  by (simp add: parseArgs_endian_def)

subsection \<open>The endianness\<close>

text \<open>
  Claim C9. Whatever the call is given and whether or not it ends in an exception,
  \<^verbatim>\<open>parseArgs\<close> leaves \<^verbatim>\<open>GlobalConfig.ENDIAN\<close> at \<^verbatim>\<open>LITTLE\<close> when \<^verbatim>\<open>args.endian\<close> is
  \<^verbatim>\<open>"little"\<close>, at \<^verbatim>\<open>MIDDLE\<close> when it is \<^verbatim>\<open>"middle"\<close>, and at \<^verbatim>\<open>BIG\<close> for every other
  value, \<^verbatim>\<open>"big"\<close>, an unrecognised string and \<^verbatim>\<open>None\<close> included.
\<close>

theorem parseArgs_sets_ENDIAN:
  "ENDIAN (snd (parseArgs int16 args g)) =
     (if endian args = Some ''little'' then LITTLE
      else if endian args = Some ''middle'' then MIDDLE else BIG)"
proof -
  obtain g2 where g2: "parseArgs_compiler args (parseArgs_flags args g) = Inr g2"
    by (simp add: parseArgs_compiler_Inr)
  show ?thesis
  proof (cases "parseArgs_gp int16 args (parseArgs_endian args g2)")
    case (Inl e)
    with g2 show ?thesis
      by (simp add: parseArgs_def Let_def ENDIAN_parseArgs_endian)
  next
    case (Inr g4)
    then have "ENDIAN g4 = ENDIAN (parseArgs_endian args g2)"
      by (auto simp add: parseArgs_gp_def split: option.splits)
    with g2 Inr show ?thesis
      by (simp add: parseArgs_def Let_def ENDIAN_parseArgs_endian ENDIAN_parseArgs_tail)
  qed
qed

subsection \<open>The frame of parseArgs\<close>

lemma snd_parseArgs:
  "snd (parseArgs int16 args g) =
     (let g3 = parseArgs_endian args
                 (case compiler args of
                    None \<Rightarrow> parseArgs_flags args g
                  | Some s \<Rightarrow>
                      (parseArgs_flags args g)
                        \<lparr>COMPILER := (if s = ''IDO'' then IDO else if s = ''GCC'' then GCC
                                       else if s = ''SN64'' then SN64 else UNKNOWN)\<rparr>)
      in case gp args of
           None \<Rightarrow> parseArgs_tail args g3
         | Some s \<Rightarrow>
             (case int16 s of
                None \<Rightarrow> g3
              | Some v \<Rightarrow> parseArgs_tail args (g3\<lparr>GP_VALUE := Some v\<rparr>)))"
  by (simp add: parseArgs_def parseArgs_compiler_Inr parseArgs_gp_def Let_def
      split: option.splits)

text \<open>
  Claim C10, as amended. \<^verbatim>\<open>parseArgs\<close> changes a field of \<^verbatim>\<open>GlobalConfig\<close> only when
  the argument of that field was supplied: a field whose attribute of \<^verbatim>\<open>args\<close> is
  \<^verbatim>\<open>None\<close> keeps its value, the four label fields keep theirs also when the
  attribute is the empty string, and the fields no option stands for keep theirs. This
  holds too when the call ends in the \<^verbatim>\<open>ValueError\<close> of \<^verbatim>\<open>int(args.gp, 16)\<close>. The one
  field it does not hold for is \<^verbatim>\<open>ENDIAN\<close>, which every call assigns.
\<close>

theorem parseArgs_frame:
  assumes "g' = snd (parseArgs int16 args g)"
  shows
  "(disasm_unknown args = None \<longrightarrow> DISASSEMBLE_UNKNOWN_INSTRUCTIONS g' = DISASSEMBLE_UNKNOWN_INSTRUCTIONS g) \<and>
   (string_guesser args = None \<longrightarrow> STRING_GUESSER g' = STRING_GUESSER g) \<and>
   (name_vars_by_section args = None \<longrightarrow> AUTOGENERATED_NAMES_BASED_ON_SECTION_TYPE g' = AUTOGENERATED_NAMES_BASED_ON_SECTION_TYPE g) \<and>
   (name_vars_by_type args = None \<longrightarrow> AUTOGENERATED_NAMES_BASED_ON_DATA_TYPE g' = AUTOGENERATED_NAMES_BASED_ON_DATA_TYPE g) \<and>
   (compiler args = None \<longrightarrow> COMPILER g' = COMPILER g) \<and>
   (gp args = None \<longrightarrow> GP_VALUE g' = GP_VALUE g) \<and>
   (filter_low_addresses args = None \<longrightarrow> SYMBOL_FINDER_FILTER_LOW_ADDRESSES g' = SYMBOL_FINDER_FILTER_LOW_ADDRESSES g) \<and>
   (filter_high_addresses args = None \<longrightarrow> SYMBOL_FINDER_FILTER_HIGH_ADDRESSES g' = SYMBOL_FINDER_FILTER_HIGH_ADDRESSES g) \<and>
   (filtered_addresses_as_constants args = None \<longrightarrow> SYMBOL_FINDER_FILTERED_ADDRESSES_AS_CONSTANTS g' = SYMBOL_FINDER_FILTERED_ADDRESSES_AS_CONSTANTS g) \<and>
   (filtered_addresses_as_hilo args = None \<longrightarrow> SYMBOL_FINDER_FILTERED_ADDRESSES_AS_HILO g' = SYMBOL_FINDER_FILTERED_ADDRESSES_AS_HILO g) \<and>
   (asm_comments args = None \<longrightarrow> ASM_COMMENT g' = ASM_COMMENT g) \<and>
   (glabel_count args = None \<longrightarrow> GLABEL_ASM_COUNT g' = GLABEL_ASM_COUNT g) \<and>
   ((asm_text_label args = None \<or> asm_text_label args = Some []) \<longrightarrow> ASM_TEXT_LABEL g' = ASM_TEXT_LABEL g) \<and>
   ((asm_data_label args = None \<or> asm_data_label args = Some []) \<longrightarrow> ASM_DATA_LABEL g' = ASM_DATA_LABEL g) \<and>
   ((asm_ent_label args = None \<or> asm_ent_label args = Some []) \<longrightarrow> ASM_TEXT_ENT_LABEL g' = ASM_TEXT_ENT_LABEL g) \<and>
   ((asm_end_label args = None \<or> asm_end_label args = Some []) \<longrightarrow> ASM_TEXT_END_LABEL g' = ASM_TEXT_END_LABEL g) \<and>
   (asm_func_as_label args = None \<longrightarrow> ASM_TEXT_FUNC_AS_LABEL g' = ASM_TEXT_FUNC_AS_LABEL g) \<and>
   (print_new_file_boundaries args = None \<longrightarrow> PRINT_NEW_FILE_BOUNDARIES g' = PRINT_NEW_FILE_BOUNDARIES g) \<and>
   (use_dot_byte args = None \<longrightarrow> USE_DOT_BYTE g' = USE_DOT_BYTE g) \<and>
   (use_dot_short args = None \<longrightarrow> USE_DOT_SHORT g' = USE_DOT_SHORT g) \<and>
   (verbose args = None \<longrightarrow> VERBOSE g' = VERBOSE g) \<and>
   (quiet args = None \<longrightarrow> QUIET g' = QUIET g) \<and>
   (debug_func_analysis args = None \<longrightarrow> PRINT_FUNCTION_ANALYSIS_DEBUG_INFO g' = PRINT_FUNCTION_ANALYSIS_DEBUG_INFO g) \<and>
   (debug_symbol_finder args = None \<longrightarrow> PRINT_SYMBOL_FINDER_DEBUG_INFO g' = PRINT_SYMBOL_FINDER_DEBUG_INFO g) \<and>
   (debug_unpaired_luis args = None \<longrightarrow> PRINT_UNPAIRED_LUIS_DEBUG_INFO g' = PRINT_UNPAIRED_LUIS_DEBUG_INFO g) \<and>
   ADD_NEW_SYMBOLS g' = ADD_NEW_SYMBOLS g \<and>
   PRODUCE_SYMBOLS_PLUS_OFFSET g' = PRODUCE_SYMBOLS_PLUS_OFFSET g \<and>
   TRUST_USER_FUNCTIONS g' = TRUST_USER_FUNCTIONS g \<and>
   TRUST_JAL_FUNCTIONS g' = TRUST_JAL_FUNCTIONS g \<and>
   LINE_ENDS g' = LINE_ENDS g \<and>
   REMOVE_POINTERS g' = REMOVE_POINTERS g \<and>
   IGNORE_BRANCHES g' = IGNORE_BRANCHES g \<and>
   IGNORE_WORD_LIST g' = IGNORE_WORD_LIST g \<and>
   WRITE_BINARY g' = WRITE_BINARY g"
  unfolding assms snd_parseArgs Let_def parseArgs_endian_def parseArgs_flags_def
    parseArgs_tail_def
  by (simp add: sel_not_None_frame sel_truthy_frame set_if_not_None_None
      set_if_truthy_falsy split: option.splits)

theorem parseArgs_frame_witness:
  "DISASSEMBLE_UNKNOWN_INSTRUCTIONS (snd (parseArgs (\<lambda>s. None) (Namespace_None\<lparr>asm_ent_label := Some []\<rparr>) GlobalConfig_default)) = DISASSEMBLE_UNKNOWN_INSTRUCTIONS GlobalConfig_default \<and>
   STRING_GUESSER (snd (parseArgs (\<lambda>s. None) (Namespace_None\<lparr>asm_ent_label := Some []\<rparr>) GlobalConfig_default)) = STRING_GUESSER GlobalConfig_default \<and>
   AUTOGENERATED_NAMES_BASED_ON_SECTION_TYPE (snd (parseArgs (\<lambda>s. None) (Namespace_None\<lparr>asm_ent_label := Some []\<rparr>) GlobalConfig_default)) = AUTOGENERATED_NAMES_BASED_ON_SECTION_TYPE GlobalConfig_default \<and>
   AUTOGENERATED_NAMES_BASED_ON_DATA_TYPE (snd (parseArgs (\<lambda>s. None) (Namespace_None\<lparr>asm_ent_label := Some []\<rparr>) GlobalConfig_default)) = AUTOGENERATED_NAMES_BASED_ON_DATA_TYPE GlobalConfig_default \<and>
   COMPILER (snd (parseArgs (\<lambda>s. None) (Namespace_None\<lparr>asm_ent_label := Some []\<rparr>) GlobalConfig_default)) = COMPILER GlobalConfig_default \<and>
   GP_VALUE (snd (parseArgs (\<lambda>s. None) (Namespace_None\<lparr>asm_ent_label := Some []\<rparr>) GlobalConfig_default)) = GP_VALUE GlobalConfig_default \<and>
   SYMBOL_FINDER_FILTER_LOW_ADDRESSES (snd (parseArgs (\<lambda>s. None) (Namespace_None\<lparr>asm_ent_label := Some []\<rparr>) GlobalConfig_default)) = SYMBOL_FINDER_FILTER_LOW_ADDRESSES GlobalConfig_default \<and>
   SYMBOL_FINDER_FILTER_HIGH_ADDRESSES (snd (parseArgs (\<lambda>s. None) (Namespace_None\<lparr>asm_ent_label := Some []\<rparr>) GlobalConfig_default)) = SYMBOL_FINDER_FILTER_HIGH_ADDRESSES GlobalConfig_default \<and>
   SYMBOL_FINDER_FILTERED_ADDRESSES_AS_CONSTANTS (snd (parseArgs (\<lambda>s. None) (Namespace_None\<lparr>asm_ent_label := Some []\<rparr>) GlobalConfig_default)) = SYMBOL_FINDER_FILTERED_ADDRESSES_AS_CONSTANTS GlobalConfig_default \<and>
   SYMBOL_FINDER_FILTERED_ADDRESSES_AS_HILO (snd (parseArgs (\<lambda>s. None) (Namespace_None\<lparr>asm_ent_label := Some []\<rparr>) GlobalConfig_default)) = SYMBOL_FINDER_FILTERED_ADDRESSES_AS_HILO GlobalConfig_default \<and>
   ASM_COMMENT (snd (parseArgs (\<lambda>s. None) (Namespace_None\<lparr>asm_ent_label := Some []\<rparr>) GlobalConfig_default)) = ASM_COMMENT GlobalConfig_default \<and>
   GLABEL_ASM_COUNT (snd (parseArgs (\<lambda>s. None) (Namespace_None\<lparr>asm_ent_label := Some []\<rparr>) GlobalConfig_default)) = GLABEL_ASM_COUNT GlobalConfig_default \<and>
   ASM_TEXT_LABEL (snd (parseArgs (\<lambda>s. None) (Namespace_None\<lparr>asm_ent_label := Some []\<rparr>) GlobalConfig_default)) = ASM_TEXT_LABEL GlobalConfig_default \<and>
   ASM_DATA_LABEL (snd (parseArgs (\<lambda>s. None) (Namespace_None\<lparr>asm_ent_label := Some []\<rparr>) GlobalConfig_default)) = ASM_DATA_LABEL GlobalConfig_default \<and>
   ASM_TEXT_ENT_LABEL (snd (parseArgs (\<lambda>s. None) (Namespace_None\<lparr>asm_ent_label := Some []\<rparr>) GlobalConfig_default)) = ASM_TEXT_ENT_LABEL GlobalConfig_default \<and>
   ASM_TEXT_END_LABEL (snd (parseArgs (\<lambda>s. None) (Namespace_None\<lparr>asm_ent_label := Some []\<rparr>) GlobalConfig_default)) = ASM_TEXT_END_LABEL GlobalConfig_default \<and>
   ASM_TEXT_FUNC_AS_LABEL (snd (parseArgs (\<lambda>s. None) (Namespace_None\<lparr>asm_ent_label := Some []\<rparr>) GlobalConfig_default)) = ASM_TEXT_FUNC_AS_LABEL GlobalConfig_default \<and>
   PRINT_NEW_FILE_BOUNDARIES (snd (parseArgs (\<lambda>s. None) (Namespace_None\<lparr>asm_ent_label := Some []\<rparr>) GlobalConfig_default)) = PRINT_NEW_FILE_BOUNDARIES GlobalConfig_default \<and>
   USE_DOT_BYTE (snd (parseArgs (\<lambda>s. None) (Namespace_None\<lparr>asm_ent_label := Some []\<rparr>) GlobalConfig_default)) = USE_DOT_BYTE GlobalConfig_default \<and>
   USE_DOT_SHORT (snd (parseArgs (\<lambda>s. None) (Namespace_None\<lparr>asm_ent_label := Some []\<rparr>) GlobalConfig_default)) = USE_DOT_SHORT GlobalConfig_default \<and>
   VERBOSE (snd (parseArgs (\<lambda>s. None) (Namespace_None\<lparr>asm_ent_label := Some []\<rparr>) GlobalConfig_default)) = VERBOSE GlobalConfig_default \<and>
   QUIET (snd (parseArgs (\<lambda>s. None) (Namespace_None\<lparr>asm_ent_label := Some []\<rparr>) GlobalConfig_default)) = QUIET GlobalConfig_default \<and>
   PRINT_FUNCTION_ANALYSIS_DEBUG_INFO (snd (parseArgs (\<lambda>s. None) (Namespace_None\<lparr>asm_ent_label := Some []\<rparr>) GlobalConfig_default)) = PRINT_FUNCTION_ANALYSIS_DEBUG_INFO GlobalConfig_default \<and>
   PRINT_SYMBOL_FINDER_DEBUG_INFO (snd (parseArgs (\<lambda>s. None) (Namespace_None\<lparr>asm_ent_label := Some []\<rparr>) GlobalConfig_default)) = PRINT_SYMBOL_FINDER_DEBUG_INFO GlobalConfig_default \<and>
   PRINT_UNPAIRED_LUIS_DEBUG_INFO (snd (parseArgs (\<lambda>s. None) (Namespace_None\<lparr>asm_ent_label := Some []\<rparr>) GlobalConfig_default)) = PRINT_UNPAIRED_LUIS_DEBUG_INFO GlobalConfig_default \<and>
   ADD_NEW_SYMBOLS (snd (parseArgs (\<lambda>s. None) (Namespace_None\<lparr>asm_ent_label := Some []\<rparr>) GlobalConfig_default)) = ADD_NEW_SYMBOLS GlobalConfig_default \<and>
   PRODUCE_SYMBOLS_PLUS_OFFSET (snd (parseArgs (\<lambda>s. None) (Namespace_None\<lparr>asm_ent_label := Some []\<rparr>) GlobalConfig_default)) = PRODUCE_SYMBOLS_PLUS_OFFSET GlobalConfig_default \<and>
   TRUST_USER_FUNCTIONS (snd (parseArgs (\<lambda>s. None) (Namespace_None\<lparr>asm_ent_label := Some []\<rparr>) GlobalConfig_default)) = TRUST_USER_FUNCTIONS GlobalConfig_default \<and>
   TRUST_JAL_FUNCTIONS (snd (parseArgs (\<lambda>s. None) (Namespace_None\<lparr>asm_ent_label := Some []\<rparr>) GlobalConfig_default)) = TRUST_JAL_FUNCTIONS GlobalConfig_default \<and>
   LINE_ENDS (snd (parseArgs (\<lambda>s. None) (Namespace_None\<lparr>asm_ent_label := Some []\<rparr>) GlobalConfig_default)) = LINE_ENDS GlobalConfig_default \<and>
   REMOVE_POINTERS (snd (parseArgs (\<lambda>s. None) (Namespace_None\<lparr>asm_ent_label := Some []\<rparr>) GlobalConfig_default)) = REMOVE_POINTERS GlobalConfig_default \<and>
   IGNORE_BRANCHES (snd (parseArgs (\<lambda>s. None) (Namespace_None\<lparr>asm_ent_label := Some []\<rparr>) GlobalConfig_default)) = IGNORE_BRANCHES GlobalConfig_default \<and>
   IGNORE_WORD_LIST (snd (parseArgs (\<lambda>s. None) (Namespace_None\<lparr>asm_ent_label := Some []\<rparr>) GlobalConfig_default)) = IGNORE_WORD_LIST GlobalConfig_default \<and>
   WRITE_BINARY (snd (parseArgs (\<lambda>s. None) (Namespace_None\<lparr>asm_ent_label := Some []\<rparr>) GlobalConfig_default)) = WRITE_BINARY GlobalConfig_default"
  using parseArgs_frame [of "snd (parseArgs (\<lambda>s. None) (Namespace_None\<lparr>asm_ent_label := Some []\<rparr>) GlobalConfig_default)"
      "\<lambda>s. None" "Namespace_None\<lparr>asm_ent_label := Some []\<rparr>" GlobalConfig_default]
  by (simp add: Namespace_None_def)

text \<open>
  Claim C10 as it is written fails on \<^verbatim>\<open>ENDIAN\<close>: with \<^verbatim>\<open>args.endian\<close> at \<^verbatim>\<open>None\<close> and
  \<^verbatim>\<open>GlobalConfig.ENDIAN\<close> at \<^verbatim>\<open>LITTLE\<close> before the call, the \<^verbatim>\<open>else\<close> branch sets it to
  \<^verbatim>\<open>BIG\<close>.
\<close>

theorem parseArgs_frame_ENDIAN_counterexample:
  "endian Namespace_None = None \<and>
   ENDIAN (GlobalConfig_default\<lparr>ENDIAN := LITTLE\<rparr>) = LITTLE \<and>
   ENDIAN (snd (parseArgs (\<lambda>s. None) Namespace_None (GlobalConfig_default\<lparr>ENDIAN := LITTLE\<rparr>))) = BIG"
  by (simp add: snd_parseArgs Namespace_None_def parseArgs_endian_def parseArgs_flags_def
      parseArgs_tail_def set_if_not_None_None set_if_truthy_falsy Let_def)

section \<open>Properties of the relocation pair tracker\<close>

lemma set_pending_remove: "set (pending_remove r ps) = {e \<in> set ps. fst e \<noteq> r}"
  by (auto simp add: pending_remove_def)

lemma map_of_pending_remove:
  "map_of (pending_remove k ps) r = (if r = k then None else map_of ps r)"
  by (induction ps) (auto simp add: pending_remove_def)

lemma map_of_pending_mem: "map_of ps r = Some (ha, h) \<Longrightarrow> (r, ha, h) \<in> set ps"
  by (rule map_of_SomeD)

lemma high_part_writes: "high_part i = Some (rx, h) \<Longrightarrow> writes_reg i = Some rx"
  by (cases i) simp_all

subsection \<open>An address that no waiting high part and no pair carries\<close>

lemma hi_free_pair_low: "hi_free a st \<Longrightarrow> hi_free a (pair_low b i st)"
  by (auto simp add: hi_free_def pair_low_def set_pending_remove split: option.splits
      dest!: map_of_pending_mem)

lemma hi_free_retire: "hi_free a st \<Longrightarrow> hi_free a (retire_overwritten i st)"
  by (auto simp add: hi_free_def retire_overwritten_def set_pending_remove split: option.splits)

lemma hi_free_open_high: "a \<noteq> b \<Longrightarrow> hi_free a st \<Longrightarrow> hi_free a (open_high b i st)"
  by (auto simp add: hi_free_def open_high_def set_pending_remove split: option.splits)

lemma hi_free_step: "a \<noteq> b \<Longrightarrow> hi_free a st \<Longrightarrow> hi_free a (track_step b i st)"
  by (simp add: track_step_def hi_free_pair_low hi_free_retire hi_free_open_high)

lemma hi_free_track_from: "a < b \<Longrightarrow> hi_free a st \<Longrightarrow> hi_free a (track_from b is st)"
  by (induction "is" arbitrary: b st) (simp_all add: hi_free_step)

subsection \<open>A diagnostic is never withdrawn\<close>

lemma unpaired_pair_low: "unpaired (pair_low b i st) = unpaired st"
  by (simp add: pair_low_def split: option.splits)

lemma unpaired_open_high: "unpaired (open_high b i st) = unpaired st"
  by (simp add: open_high_def split: option.splits)

lemma unpaired_retire:
  "a \<in> set (unpaired st) \<Longrightarrow> a \<in> set (unpaired (retire_overwritten i st))"
  by (auto simp add: retire_overwritten_def split: option.splits)

lemma unpaired_step: "a \<in> set (unpaired st) \<Longrightarrow> a \<in> set (unpaired (track_step b i st))"
  by (simp add: track_step_def unpaired_pair_low unpaired_open_high unpaired_retire)

lemma unpaired_track_from:
  "a \<in> set (unpaired st) \<Longrightarrow> a \<in> set (unpaired (track_from b is st))"
  by (induction "is" arbitrary: b st) (simp_all add: unpaired_step)

subsection \<open>The state knows only addresses already scanned\<close>

lemma all_below_step: "all_below c st \<Longrightarrow> all_below (c + 4) (track_step c i st)"
  by (auto simp add: all_below_def track_step_def open_high_def retire_overwritten_def pair_low_def
      set_pending_remove less_SucI split: option.splits dest!: map_of_pending_mem)

lemma all_below_track_from:
  "all_below c st \<Longrightarrow> all_below (c + 4 * length is) (track_from c is st)"
proof (induction "is" arbitrary: c st)
  case Nil
  then show ?case by simp
next
  case (Cons i "is")
  from Cons.IH [OF all_below_step [OF Cons.prems]] show ?case
    by (simp add: add.assoc)
qed

lemma all_below_hi_free: "all_below c st \<Longrightarrow> hi_free c st"
  by (auto simp add: all_below_def hi_free_def)

lemma all_below_init: "all_below c \<lparr>pending = [], pairs = [], unpaired = []\<rparr>"
  by (simp add: all_below_def)

lemma track_from_append:
  "track_from a (xs @ ys) st = track_from (a + 4 * length xs) ys (track_from a xs st)"
  by (induction xs arbitrary: a st) (simp_all add: add.assoc)

subsection \<open>A high part that waits under its register\<close>

lemma held_pair_low: "\<not> uses_as_base r i \<Longrightarrow> held r a h st \<Longrightarrow> held r a h (pair_low b i st)"
  by (auto simp add: held_def pair_low_def uses_as_base_def set_pending_remove
      map_of_pending_remove split: option.splits dest!: map_of_pending_mem)

lemma held_retire:
  "writes_reg i \<noteq> Some r \<Longrightarrow> held r a h st \<Longrightarrow> held r a h (retire_overwritten i st)"
  by (auto simp add: held_def retire_overwritten_def set_pending_remove
      map_of_pending_remove split: option.splits)

lemma held_open_high:
  "writes_reg i \<noteq> Some r \<Longrightarrow> a \<noteq> b \<Longrightarrow> held r a h st \<Longrightarrow> held r a h (open_high b i st)"
  by (auto simp add: held_def open_high_def set_pending_remove map_of_pending_remove
      split: option.splits dest: high_part_writes)

lemma held_step:
  "\<not> touches r i \<Longrightarrow> a \<noteq> b \<Longrightarrow> held r a h st \<Longrightarrow> held r a h (track_step b i st)"
  by (simp add: touches_def track_step_def held_pair_low held_retire held_open_high)

lemma held_track_from:
  "\<forall>i \<in> set is. \<not> touches r i \<Longrightarrow> a < b \<Longrightarrow> held r a h st \<Longrightarrow>
   held r a h (track_from b is st)"
  by (induction "is" arbitrary: b st) (simp_all add: held_step)

lemma held_after_LUI: "hi_free a st \<Longrightarrow> held r a h (track_step a (LUI r h) st)"
  by (auto simp add: hi_free_def held_def track_step_def pair_low_def retire_overwritten_def
      open_high_def set_pending_remove split: option.splits)

lemma retire_held:
  assumes "writes_reg i = Some r" and "held r a h st"
  shows "a \<in> set (unpaired (retire_overwritten i st)) \<and> hi_free a (retire_overwritten i st)"
  using assms
  by (auto simp add: held_def hi_free_def retire_overwritten_def set_pending_remove)

lemma overwrite_step:
  assumes "writes_reg w = Some r" and "\<not> uses_as_base r w" and "a \<noteq> b" and "held r a h st"
  shows "a \<in> set (unpaired (track_step b w st)) \<and> hi_free a (track_step b w st)"
proof -
  have "held r a h (pair_low b w st)"
    using assms by (simp add: held_pair_low)
  from retire_held [OF assms(1) this] assms(3) show ?thesis
    by (simp add: track_step_def unpaired_open_high hi_free_open_high)
qed

lemma finish_fields:
  "pairs (finish st) = pairs st" "set (unpaired st) \<subseteq> set (unpaired (finish st))"
  by (auto simp add: finish_def)

subsection \<open>An overwritten high part\<close>

text \<open>
  Claim C6. Let a Function hold \<^verbatim>\<open>LUI r, imm_hi\<close> at address \<open>base + 4 * length pre\<close>,
  then instructions \<open>mid\<close> that neither write \<open>r\<close> nor use it as a base register, then an
  instruction \<open>w\<close> that overwrites \<open>r\<close> without using it as its base (an unrelated
  value), then any instructions \<open>rest\<close>, among them the candidate low parts on \<open>r\<close>.
  The tracker returns a result (it is a total function, so the analysis goes on), the
  address of the \<^verbatim>\<open>LUI\<close> is among the unpaired diagnostics, and no RelocationPair of the
  result has this \<^verbatim>\<open>LUI\<close> as its high part.
\<close>

theorem overwritten_high_is_unpaired:
  assumes mid: "\<forall>i \<in> set mid. \<not> touches r i"
    and w: "writes_reg w = Some r" "\<not> uses_as_base r w"
  shows
    "base + 4 * length pre
       \<in> set (unpaired (track_function base (pre @ [LUI r imm_hi] @ mid @ [w] @ rest))) \<and>
     (\<forall>p \<in> set (pairs (track_function base (pre @ [LUI r imm_hi] @ mid @ [w] @ rest))).
        hi_address p \<noteq> base + 4 * length pre)"
proof -
  define a where "a = base + 4 * length pre"
  define s0 where "s0 = track_from base pre \<lparr>pending = [], pairs = [], unpaired = []\<rparr>"
  define s1 where "s1 = track_step a (LUI r imm_hi) s0"
  define s2 where "s2 = track_from (a + 4) mid s1"
  define b where "b = a + 4 + 4 * length mid"
  define s3 where "s3 = track_step b w s2"
  define s4 where "s4 = track_from (b + 4) rest s3"
  have run: "track_function base (pre @ [LUI r imm_hi] @ mid @ [w] @ rest) = finish s4"
    by (simp add: track_function_def track_from_append s0_def s1_def s2_def s3_def s4_def
        b_def a_def add.assoc)
  have "hi_free a s0"
    unfolding s0_def a_def by (intro all_below_hi_free all_below_track_from all_below_init)
  then have "held r a imm_hi s1"
    unfolding s1_def by (rule held_after_LUI)
  with mid have "held r a imm_hi s2"
    unfolding s2_def by (intro held_track_from) simp_all
  moreover have "a \<noteq> b" by (simp add: b_def)
  ultimately have s3: "a \<in> set (unpaired s3)" "hi_free a s3"
    unfolding s3_def using overwrite_step [OF w] by blast+
  have "a < b + 4" by (simp add: b_def)
  with s3 have "a \<in> set (unpaired s4)" "hi_free a s4"
    unfolding s4_def by (simp_all add: unpaired_track_from hi_free_track_from)
  then show ?thesis
    unfolding run a_def [symmetric] using finish_fields [of s4] by (auto simp add: hi_free_def)
qed

theorem overwritten_high_is_unpaired_witness:
  "\<not> touches 8 (OTHER (Some 9)) \<and>
   writes_reg (OTHER (Some 8)) = Some 8 \<and>
   \<not> uses_as_base 8 (OTHER (Some 8)) \<and>
   4100 \<in> set (unpaired (track_function 4096
      [NOP, LUI 8 0x8012, OTHER (Some 9), OTHER (Some 8), ADDIU 8 8 0x3456])) \<and>
   4100 \<notin> hi_address ` set (pairs (track_function 4096
      [NOP, LUI 8 0x8012, OTHER (Some 9), OTHER (Some 8), ADDIU 8 8 0x3456]))"
  using overwritten_high_is_unpaired
    [of "[OTHER (Some 9)]" 8 "OTHER (Some 8)" 4096 "[NOP]" "0x8012" "[ADDIU 8 8 0x3456]"]
  by (auto simp add: touches_def uses_as_base_def)

section \<open>Properties of the function boundary analyzer\<close>

lemma chained_le: "chained a fs e \<Longrightarrow> a \<le> e"
  by (induction fs arbitrary: a) (fastforce simp add: span_end_def)+

lemma chained_last: "chained a fs e \<Longrightarrow> fs \<noteq> [] \<Longrightarrow> span_end (last fs) = e"
  by (induction fs arbitrary: a) auto

lemma chained_count:
  "chained a fs e \<Longrightarrow>
   length (filter (\<lambda>f. covers f x) fs) = (if a \<le> x \<and> x < e then 1 else 0)"
proof (induction fs arbitrary: a)
  case Nil
  then show ?case by simp
next
  case (Cons f fs)
  then have rest: "chained (span_end f) fs e" and st: "start f = a" and ne: "instrs f \<noteq> []"
    by simp_all
  from ne have lt: "a < span_end f" by (simp add: span_end_def st)
  from chained_le [OF rest] have le: "span_end f \<le> e" .
  from Cons.IH [OF rest] lt le st show ?case
    by (auto simp add: covers_def)
qed

lemma analyze_from_spans:
  "acc \<noteq> [] \<or> rest \<noteq> [] \<Longrightarrow> e = s + 4 * length acc + 4 * length rest \<Longrightarrow>
   chained s (analyze_from hints prologue s acc rest) e \<and>
   concat (map instrs (analyze_from hints prologue s acc rest)) = acc @ rest"
proof (induction rest arbitrary: s acc)
  case Nil
  then show ?case by (simp add: span_end_def)
next
  case (Cons i rest)
  show ?case
  proof (cases "closes_before hints prologue (s + 4 * length (acc @ [i])) (acc @ [i]) rest")
    case True
    then have "[] \<noteq> [] \<or> rest \<noteq> []" by (simp add: closes_before_def)
    moreover from Cons.prems(2)
    have "e = (s + 4 * length (acc @ [i])) + 4 * length ([]::Instruction list) + 4 * length rest"
      by simp
    ultimately
    have "chained (s + 4 * length (acc @ [i]))
            (analyze_from hints prologue (s + 4 * length (acc @ [i])) [] rest) e \<and>
          concat (map instrs (analyze_from hints prologue (s + 4 * length (acc @ [i])) [] rest)) =
            [] @ rest"
      by (rule Cons.IH)
    with True show ?thesis
      by (simp add: Let_def span_end_def)
  next
    case False
    have "acc @ [i] \<noteq> [] \<or> rest \<noteq> []" by simp
    moreover from Cons.prems(2) have "e = s + 4 * length (acc @ [i]) + 4 * length rest"
      by simp
    ultimately
    have "chained s (analyze_from hints prologue s (acc @ [i]) rest) e \<and>
          concat (map instrs (analyze_from hints prologue s (acc @ [i]) rest)) = (acc @ [i]) @ rest"
      by (rule Cons.IH)
    with False show ?thesis
      by (simp add: Let_def)
  qed
qed

lemma analyze_from_last:
  "acc \<noteq> [] \<or> rest \<noteq> [] \<Longrightarrow>
   analyze_from hints prologue s acc rest \<noteq> [] \<and>
   truncated (last (analyze_from hints prologue s acc rest)) =
     (\<not> return_observed (instrs (last (analyze_from hints prologue s acc rest))))"
proof (induction rest arbitrary: s acc)
  case Nil
  then show ?case by simp
next
  case (Cons i rest)
  show ?case
  proof (cases "closes_before hints prologue (s + 4 * length (acc @ [i])) (acc @ [i]) rest")
    case True
    then have "rest \<noteq> []" by (simp add: closes_before_def)
    then have "[] \<noteq> [] \<or> rest \<noteq> []" by simp
    from Cons.IH [OF this, of "s + 4 * length (acc @ [i])"] True show ?thesis
      by (simp add: Let_def)
  next
    case False
    have "acc @ [i] \<noteq> [] \<or> rest \<noteq> []" by simp
    from Cons.IH [OF this, of s] False show ?thesis
      by (simp add: Let_def)
  qed
qed

text \<open>
  Claim C3. For every text Section (its base address, its instructions, the trusted
  hints and the prologue test), the Function spans of the analyzer partition the
  Section: the spans in order hold the Section's instructions with none left out and
  none repeated, and an address \<open>x\<close> lies in exactly one span when it lies in the
  Section (and in none when it does not). When the Section is not empty, the last span
  ends at the Section boundary, and it is marked truncated exactly when it does not end
  in a return sequence.
\<close>

theorem function_spans_partition:
  "concat (map instrs (analyze hints prologue base is)) = is \<and>
   length (filter (\<lambda>f. covers f x) (analyze hints prologue base is)) =
     (if base \<le> x \<and> x < base + 4 * length is then 1 else 0) \<and>
   (is \<noteq> [] \<longrightarrow>
      analyze hints prologue base is \<noteq> [] \<and>
      span_end (last (analyze hints prologue base is)) = base + 4 * length is \<and>
      truncated (last (analyze hints prologue base is)) =
        (\<not> return_observed (instrs (last (analyze hints prologue base is)))))"
proof (cases "is = []")
  case True
  then show ?thesis by (simp add: analyze_def)
next
  case False
  then have ne: "([]::Instruction list) \<noteq> [] \<or> is \<noteq> []" by simp
  have e: "base + 4 * length is = base + 4 * length ([]::Instruction list) + 4 * length is"
    by simp
  from analyze_from_spans [OF ne e, of hints prologue]
  have ch: "chained base (analyze hints prologue base is) (base + 4 * length is)"
    and cc: "concat (map instrs (analyze hints prologue base is)) = is"
    by (simp_all add: analyze_def)
  from analyze_from_last [OF ne, of hints prologue base]
  have nonempty: "analyze hints prologue base is \<noteq> []"
    and tr: "truncated (last (analyze hints prologue base is)) =
        (\<not> return_observed (instrs (last (analyze hints prologue base is))))"
    by (simp_all add: analyze_def)
  from chained_count [OF ch, of x] chained_last [OF ch nonempty] cc nonempty tr
  show ?thesis by simp
qed

theorem function_spans_partition_witness:
  "[OTHER None, JR 31, NOP, ADDIU 29 29 0xFFE8, OTHER None] \<noteq> [] \<and>
   concat (map instrs (analyze {} (\<lambda>i. i = ADDIU 29 29 0xFFE8) 4096
     [OTHER None, JR 31, NOP, ADDIU 29 29 0xFFE8, OTHER None])) =
     [OTHER None, JR 31, NOP, ADDIU 29 29 0xFFE8, OTHER None] \<and>
   length (filter (\<lambda>f. covers f 4108) (analyze {} (\<lambda>i. i = ADDIU 29 29 0xFFE8) 4096
     [OTHER None, JR 31, NOP, ADDIU 29 29 0xFFE8, OTHER None])) = 1 \<and>
   span_end (last (analyze {} (\<lambda>i. i = ADDIU 29 29 0xFFE8) 4096
     [OTHER None, JR 31, NOP, ADDIU 29 29 0xFFE8, OTHER None])) = 4116 \<and>
   truncated (last (analyze {} (\<lambda>i. i = ADDIU 29 29 0xFFE8) 4096
     [OTHER None, JR 31, NOP, ADDIU 29 29 0xFFE8, OTHER None])) =
     (\<not> return_observed (instrs (last (analyze {} (\<lambda>i. i = ADDIU 29 29 0xFFE8) 4096
       [OTHER None, JR 31, NOP, ADDIU 29 29 0xFFE8, OTHER None]))))"
  using function_spans_partition
    [of "{}" "\<lambda>i. i = ADDIU 29 29 0xFFE8" 4096
      "[OTHER None, JR 31, NOP, ADDIU 29 29 0xFFE8, OTHER None]" 4108]
  by simp

end
